theory Spec2Isabelle
  imports Complex_Main
begin

section \<open>Shared contract (types.ts)\<close>

text \<open>
  \<^verbatim>\<open>AWSResourceType\<close> is a union of four string literals and \<^verbatim>\<open>AWSResource\<close> an
  interface; the aggregator builds objects of the same shape. A JavaScript \<^verbatim>\<open>number\<close> is
  modelled as a real (the only arithmetic on it is the cost sum of the dashboard), an
  optional property as an option, a timestamp by its serialised text. The fields
  \<^verbatim>\<open>id\<close> and \<^verbatim>\<open>type\<close> are written \<open>id'\<close> and \<open>type'\<close>.
\<close>

datatype AWSResourceType = EC2 | RDS | EBS | SNAPSHOT

record details =
  instanceType :: "string option"
  volumeSize :: "int option"
  snapshotSize :: "int option"
  engine :: "string option"
  volumeType :: "string option"

record AWSResource =
  id' :: string
  type' :: AWSResourceType
  name :: string
  region :: "string option"
  state :: string
  lastUsed :: string
  cost :: real
  details :: details

definition no_details :: details where
  "no_details = \<lparr>instanceType = None, volumeSize = None, snapshotSize = None,
     engine = None, volumeType = None\<rparr>"

section \<open>Inventory aggregator (the Lambda handler)\<close>

subsection \<open>Provider records\<close>

text \<open>
  The records of the provider's SDK, with the properties the handler reads. The tag
  collection of an instance, a volume and a snapshot may be absent (the handler itself
  reads it with \<^verbatim>\<open>?.\<close> on two of the three), so it is an option; the other properties
  are taken as present. \<^verbatim>\<open>Tags\<close> and \<^verbatim>\<open>State\<close> occur on several records and carry the
  record's name here; \<^verbatim>\<open>instance.State.Name\<close> is one field.
\<close>

record Tag =
  Key :: string
  Value :: string

record Instance =
  InstanceId :: string
  InstanceTags :: "Tag list option"
  InstanceState_Name :: string
  LaunchTime :: string
  InstanceType :: string

record Reservation =
  Instances :: "Instance list"

record DescribeInstancesResult =
  Reservations :: "Reservation list"

record DBInstance =
  DBInstanceIdentifier :: string
  DBInstanceStatus :: string
  InstanceCreateTime :: string
  DBInstanceClass :: string
  Engine :: string

record DescribeDBInstancesResult =
  DBInstances :: "DBInstance list"

record Volume =
  VolumeId :: string
  VolumeTags :: "Tag list option"
  VolumeState :: string
  CreateTime :: string
  Size :: int
  VolumeType :: string

record DescribeVolumesResult =
  Volumes :: "Volume list"

record Snapshot =
  SnapshotId :: string
  SnapshotTags :: "Tag list option"
  SnapshotState :: string
  StartTime :: string
  VolumeSize :: int

record DescribeSnapshotsResult =
  Snapshots :: "Snapshot list"

subsection \<open>Exceptions and promises\<close>

text \<open>
  What the handler can catch: the engine's \<^verbatim>\<open>TypeError\<close> for a property read on
  \<^verbatim>\<open>undefined\<close> (it carries the property's name), an \<^verbatim>\<open>Error\<close> the handler throws
  itself, and the rejection of an SDK call, whose message may be absent.
\<close>

datatype error = TypeError string | Error string | ServiceError "string option"

fun message :: "error \<Rightarrow> string option" where
  "message (TypeError p) =
     Some (''Cannot read properties of undefined (reading '' @ [CHR 0x27] @ p @ [CHR 0x27] @ '')'')"
| "message (Error m) = Some m"
| "message (ServiceError m) = m"

text \<open>
  A settled promise is the tick at which it settled and its outcome. \<^verbatim>\<open>Promise.all\<close>
  rejects with the reason of the promise that rejected first (the earlier position wins
  a tie) and otherwise fulfils with the values in the order of the promises.
\<close>

type_synonym 'a promise = "nat \<times> (error + 'a)"

fun first_rejection :: "'a promise list \<Rightarrow> (nat \<times> error) option" where
  "first_rejection [] = None"
| "first_rejection ((t, Inr v) # ps) = first_rejection ps"
| "first_rejection ((t, Inl e) # ps) =
     (case first_rejection ps of
        None \<Rightarrow> Some (t, e)
      | Some (t', e') \<Rightarrow> if t \<le> t' then Some (t, e) else Some (t', e'))"

fun fulfilled_values :: "'a promise list \<Rightarrow> 'a list" where
  "fulfilled_values [] = []"
| "fulfilled_values ((t, Inr v) # ps) = v # fulfilled_values ps"
| "fulfilled_values ((t, Inl e) # ps) = fulfilled_values ps"

definition Promise_all :: "'a promise list \<Rightarrow> error + 'a list" where
  "Promise_all ps =
     (case first_rejection ps of
        Some (t, e) \<Rightarrow> Inl e
      | None \<Rightarrow> Inr (fulfilled_values ps))"

text \<open>\<^verbatim>\<open>xs.map(f)\<close> where \<open>f\<close> may throw: the first exception ends the traversal.\<close>

fun map_throwing :: "('a \<Rightarrow> error + 'b) \<Rightarrow> 'a list \<Rightarrow> error + 'b list" where
  "map_throwing f [] = Inr []"
| "map_throwing f (x # xs) =
     (case f x of
        Inl e \<Rightarrow> Inl e
      | Inr y \<Rightarrow> (case map_throwing f xs of Inl e \<Rightarrow> Inl e | Inr ys \<Rightarrow> Inr (y # ys)))"

fun flatMap_throwing :: "('a \<Rightarrow> error + 'b list) \<Rightarrow> 'a list \<Rightarrow> error + 'b list" where
  "flatMap_throwing f [] = Inr []"
| "flatMap_throwing f (x # xs) =
     (case f x of
        Inl e \<Rightarrow> Inl e
      | Inr ys \<Rightarrow> (case flatMap_throwing f xs of Inl e \<Rightarrow> Inl e | Inr zs \<Rightarrow> Inr (ys @ zs)))"

subsection \<open>The four queries\<close>

record env =
  AWS_REGION :: "string option"

text \<open>
  \<^verbatim>\<open>tags.find(tag => tag.Key === 'Name')?.Value || id\<close>: the value of the first tag
  with key \<^verbatim>\<open>Name\<close>, and the id when there is none or its value is the empty string
  (which is falsy).
\<close>

definition name_tag_or :: "Tag list \<Rightarrow> string \<Rightarrow> string" where
  "name_tag_or tags ident =
     (case find (\<lambda>tag. Key tag = ''Name'') tags of
        None \<Rightarrow> ident
      | Some tag \<Rightarrow> if Value tag = [] then ident else Value tag)"

text \<open>Lines 15-26: \<^verbatim>\<open>instance.Tags.find\<close> has no \<^verbatim>\<open>?.\<close> after \<^verbatim>\<open>Tags\<close>.\<close>

definition instance_resource :: "env \<Rightarrow> Instance \<Rightarrow> error + AWSResource" where
  "instance_resource penv i =
     (case InstanceTags i of
        None \<Rightarrow> Inl (TypeError ''find'')
      | Some tags \<Rightarrow>
          Inr \<lparr>id' = InstanceId i, type' = EC2,
               name = name_tag_or tags (InstanceId i),
               region = AWS_REGION penv, state = InstanceState_Name i,
               lastUsed = LaunchTime i, cost = 0,
               details = no_details\<lparr>instanceType := Some (InstanceType i)\<rparr>\<rparr>)"

definition getEC2Resources ::
  "env \<Rightarrow> error + DescribeInstancesResult \<Rightarrow> error + AWSResource list" where
  "getEC2Resources penv awaited =
     (case awaited of
        Inl e \<Rightarrow> Inl e
      | Inr instances \<Rightarrow>
          flatMap_throwing
            (\<lambda>reservation. map_throwing (instance_resource penv) (Instances reservation))
            (Reservations instances))"

definition dbinstance_resource :: "env \<Rightarrow> DBInstance \<Rightarrow> AWSResource" where
  "dbinstance_resource penv i =
     \<lparr>id' = DBInstanceIdentifier i, type' = RDS, name = DBInstanceIdentifier i,
      region = AWS_REGION penv, state = DBInstanceStatus i,
      lastUsed = InstanceCreateTime i, cost = 0,
      details = no_details\<lparr>instanceType := Some (DBInstanceClass i),
                           engine := Some (Engine i)\<rparr>\<rparr>"

definition getRDSResources ::
  "env \<Rightarrow> error + DescribeDBInstancesResult \<Rightarrow> error + AWSResource list" where
  "getRDSResources penv awaited =
     (case awaited of
        Inl e \<Rightarrow> Inl e
      | Inr instances \<Rightarrow>
          Inr (map (dbinstance_resource penv)
                 (filter (\<lambda>i. DBInstanceStatus i = ''stopped'') (DBInstances instances))))"

definition volume_resource :: "env \<Rightarrow> Volume \<Rightarrow> AWSResource" where
  "volume_resource penv v =
     \<lparr>id' = VolumeId v, type' = EBS,
      name = (case VolumeTags v of
                None \<Rightarrow> VolumeId v
              | Some tags \<Rightarrow> name_tag_or tags (VolumeId v)),
      region = AWS_REGION penv, state = VolumeState v,
      lastUsed = CreateTime v, cost = 0,
      details = no_details\<lparr>volumeSize := Some (Size v),
                           volumeType := Some (VolumeType v)\<rparr>\<rparr>"

definition getEBSResources ::
  "env \<Rightarrow> error + DescribeVolumesResult \<Rightarrow> error + AWSResource list" where
  "getEBSResources penv awaited =
     (case awaited of
        Inl e \<Rightarrow> Inl e
      | Inr volumes \<Rightarrow> Inr (map (volume_resource penv) (Volumes volumes)))"

definition snapshot_resource :: "env \<Rightarrow> Snapshot \<Rightarrow> AWSResource" where
  "snapshot_resource penv s =
     \<lparr>id' = SnapshotId s, type' = SNAPSHOT,
      name = (case SnapshotTags s of
                None \<Rightarrow> SnapshotId s
              | Some tags \<Rightarrow> name_tag_or tags (SnapshotId s)),
      region = AWS_REGION penv, state = SnapshotState s,
      lastUsed = StartTime s, cost = 0,
      details = no_details\<lparr>snapshotSize := Some (VolumeSize s)\<rparr>\<rparr>"

definition getSnapshots ::
  "env \<Rightarrow> error + DescribeSnapshotsResult \<Rightarrow> error + AWSResource list" where
  "getSnapshots penv awaited =
     (case awaited of
        Inl e \<Rightarrow> Inl e
      | Inr snapshots \<Rightarrow> Inr (map (snapshot_resource penv) (Snapshots snapshots)))"

subsection \<open>The handler\<close>

text \<open>
  The event of the HTTP gateway, with the three properties the handler reads:
  \<^verbatim>\<open>event.httpMethod\<close>, \<^verbatim>\<open>event.requestContext?.http?.method\<close> and
  \<^verbatim>\<open>event.pathParameters?.id\<close>; an optional chain that meets \<^verbatim>\<open>undefined\<close> on its way
  is \<open>None\<close>.
\<close>

record event =
  httpMethod :: "string option"
  requestContext_http_method :: "string option"
  pathParameters_id :: "string option"

text \<open>
  The body is kept as the value handed to \<^verbatim>\<open>JSON.stringify\<close>: an object with the one
  key \<^verbatim>\<open>resources\<close>, \<^verbatim>\<open>message\<close> or \<^verbatim>\<open>error\<close>, or the empty string.
\<close>

datatype body =
  ResourcesBody "AWSResource list"
| MessageBody string
| ErrorBody string
| EmptyBody

record response =
  statusCode :: nat
  headers :: "(string \<times> string) list"
  body :: body

text \<open>The SDK calls the handler issues, with their parameters, in the order issued.\<close>

datatype sdk_call =
  DescribeInstances "(string \<times> string list) list"
| DescribeDBInstances
| DescribeVolumes "(string \<times> string list) list"
| DescribeSnapshots "string list"

text \<open>What the provider answers to each of the four calls, and when.\<close>

record provider =
  describeInstances :: "DescribeInstancesResult promise"
  describeDBInstances :: "DescribeDBInstancesResult promise"
  describeVolumes :: "DescribeVolumesResult promise"
  describeSnapshots :: "DescribeSnapshotsResult promise"

definition truthy :: "string option \<Rightarrow> bool" where
  "truthy v = (case v of None \<Rightarrow> False | Some s \<Rightarrow> s \<noteq> [])"

definition httpMethod_of :: "event \<Rightarrow> string option" where
  "httpMethod_of event =
     (if truthy (httpMethod event) then httpMethod event
      else requestContext_http_method event)"

definition cors_headers :: "(string \<times> string) list" where
  "cors_headers =
     [(''Access-Control-Allow-Origin'', ''*''),
      (''Access-Control-Allow-Methods'', ''GET, DELETE, OPTIONS''),
      (''Access-Control-Allow-Headers'', ''Content-Type''),
      (''Content-Type'', ''application/json'')]"

definition plain_headers :: "(string \<times> string) list" where
  "plain_headers =
     [(''Access-Control-Allow-Origin'', ''*''),
      (''Content-Type'', ''application/json'')]"

definition list_calls :: "sdk_call list" where
  "list_calls =
     [DescribeInstances [(''instance-state-name'', [''stopped''])],
      DescribeDBInstances,
      DescribeVolumes [(''status'', [''available''])],
      DescribeSnapshots [''self'']]"

text \<open>
  The \<^verbatim>\<open>try\<close> block (lines 96-167): its result or the exception it throws, and the SDK
  calls issued. The four functions are called one after the other, each issuing its
  call before it suspends, so all four calls are issued whatever their outcomes. The
  four arrays spread into \<^verbatim>\<open>allResources\<close> are the four values of \<^verbatim>\<open>Promise.all\<close>,
  hence their concatenation.
\<close>

definition try_block :: "env \<Rightarrow> event \<Rightarrow> provider \<Rightarrow> (error + response) \<times> sdk_call list" where
  "try_block penv event p =
     (if httpMethod_of event = Some ''GET'' then
        (case Promise_all
                [(fst (describeInstances p), getEC2Resources penv (snd (describeInstances p))),
                 (fst (describeDBInstances p), getRDSResources penv (snd (describeDBInstances p))),
                 (fst (describeVolumes p), getEBSResources penv (snd (describeVolumes p))),
                 (fst (describeSnapshots p), getSnapshots penv (snd (describeSnapshots p)))] of
           Inl e \<Rightarrow> (Inl e, list_calls)
         | Inr arrays \<Rightarrow>
             (Inr \<lparr>statusCode = 200, headers = cors_headers,
                   body = ResourcesBody (concat arrays)\<rparr>, list_calls))
      else if httpMethod_of event = Some ''DELETE'' then
        (case pathParameters_id event of
           None \<Rightarrow> (Inl (Error ''Resource ID is required''), [])
         | Some resourceId \<Rightarrow>
             if resourceId = [] then (Inl (Error ''Resource ID is required''), [])
             else
               (Inr \<lparr>statusCode = 200, headers = cors_headers,
                     body = MessageBody (''Resource '' @ resourceId @ '' deleted successfully'')\<rparr>,
                []))
      else if httpMethod_of event = Some ''OPTIONS'' then
        (Inr \<lparr>statusCode = 200, headers = cors_headers, body = EmptyBody\<rparr>, [])
      else
        (Inr \<lparr>statusCode = 405, headers = plain_headers,
              body = ErrorBody ''Method not allowed''\<rparr>, []))"

text \<open>\<^verbatim>\<open>error.message || 'Internal server error'\<close> (line 177).\<close>

definition error_text :: "error \<Rightarrow> string" where
  "error_text e =
     (case message e of
        None \<Rightarrow> ''Internal server error''
      | Some m \<Rightarrow> if m = [] then ''Internal server error'' else m)"

definition handler :: "env \<Rightarrow> event \<Rightarrow> provider \<Rightarrow> response \<times> sdk_call list" where
  "handler penv event p =
     (case try_block penv event p of
        (Inr r, calls) \<Rightarrow> (r, calls)
      | (Inl e, calls) \<Rightarrow>
          (\<lparr>statusCode = 500, headers = plain_headers, body = ErrorBody (error_text e)\<rparr>,
           calls))"

definition body_resources :: "body \<Rightarrow> AWSResource list" where
  "body_resources b = (case b of ResourcesBody rs \<Rightarrow> rs | _ \<Rightarrow> [])"

section \<open>Dashboard (api.ts, App.tsx)\<close>

subsection \<open>The HTTP client\<close>

text \<open>
  \<^verbatim>\<open>ResourceResponse\<close> of types.ts; \<^verbatim>\<open>resources\<close> is an option because App.tsx
  guards it with \<^verbatim>\<open>|| []\<close>. The two fields carry the record's name, the component's
  state having fields of the same names.
\<close>

record ResourceResponse =
  response_resources :: "AWSResource list option"
  response_error :: "string option"

text \<open>
  How a request of the HTTP client ends: fulfilled with \<^verbatim>\<open>response.data\<close>, or rejected,
  and then \<open>Rejected\<close> carries \<^verbatim>\<open>error.response?.data?.error\<close>.
\<close>

datatype 'a axios = Fulfilled 'a | Rejected "string option"

text \<open>What a handler of the component does to the world.\<close>

datatype effect =
  HttpGet string
| HttpDelete string
| WriteFile string string "AWSResource list"

text \<open>
  \<^verbatim>\<open>fetchResources\<close>: the data of the reply may be \<^verbatim>\<open>null\<close> (\<open>None\<close>), which the
  function returns as it is.
\<close>

definition fetchResources ::
  "ResourceResponse option axios \<Rightarrow> ResourceResponse option \<times> effect list" where
  "fetchResources reply =
     (case reply of
        Fulfilled data \<Rightarrow> (data, [HttpGet ''/resources''])
      | Rejected e \<Rightarrow>
          (Some \<lparr>response_resources = Some [],
                 response_error =
                   (if truthy e then e else Some ''Failed to fetch resources'')\<rparr>,
           [HttpGet ''/resources'']))"

definition deleteResource :: "string \<Rightarrow> unit axios \<Rightarrow> bool \<times> effect list" where
  "deleteResource resourceId reply =
     (case reply of
        Fulfilled u \<Rightarrow> (True, [HttpDelete (''/resources/'' @ resourceId)])
      | Rejected e \<Rightarrow> (False, [HttpDelete (''/resources/'' @ resourceId)]))"

subsection \<open>The component\<close>

text \<open>
  The four state variables of \<^verbatim>\<open>App\<close>. A handler is modelled from its call to its
  last state update, as one step on the state it was called in.
\<close>

datatype selection = ALL' | Only AWSResourceType

record App =
  resources :: "AWSResource list"
  loading :: bool
  error :: "string option"
  selectedType :: selection

definition App_initial :: App where
  "App_initial = \<lparr>resources = [], loading = True, error = None, selectedType = ALL'\<rparr>"

text \<open>
  \<^verbatim>\<open>loadResources\<close>: reading \<^verbatim>\<open>response.error\<close> of a \<^verbatim>\<open>null\<close> response throws, which
  the \<^verbatim>\<open>catch\<close> of lines 24-27 handles.
\<close>

definition loadResources :: "App \<Rightarrow> ResourceResponse option axios \<Rightarrow> App \<times> effect list" where
  "loadResources s reply =
     (case fetchResources reply of
        (None, fx) \<Rightarrow>
          (s\<lparr>error := Some ''Failed to fetch resources'', resources := [], loading := False\<rparr>, fx)
      | (Some response, fx) \<Rightarrow>
          if truthy (response_error response) then
            (s\<lparr>error := response_error response, resources := [], loading := False\<rparr>, fx)
          else
            (s\<lparr>error := None,
               resources := (case response_resources response of None \<Rightarrow> [] | Some rs \<Rightarrow> rs),
               loading := False\<rparr>, fx))"

text \<open>\<^verbatim>\<open>handleDelete\<close>: \<open>confirmed\<close> is the operator's answer to \<^verbatim>\<open>window.confirm\<close>.\<close>

definition handleDelete :: "App \<Rightarrow> string \<Rightarrow> bool \<Rightarrow> unit axios \<Rightarrow> App \<times> effect list" where
  "handleDelete s ident confirmed reply =
     (if confirmed then
        (case deleteResource ident reply of
           (True, fx) \<Rightarrow> (s\<lparr>resources := filter (\<lambda>r. id' r \<noteq> ident) (resources s)\<rparr>, fx)
         | (False, fx) \<Rightarrow> (s\<lparr>error := Some ''Failed to delete resource''\<rparr>, fx))
      else (s, []))"

definition exportToExcel :: "App \<Rightarrow> App \<times> effect list" where
  "exportToExcel s =
     (if length (resources s) = 0 then
        (s\<lparr>error := Some ''No resources available to export''\<rparr>, [])
      else (s, [WriteFile ''aws-resources.xlsx'' ''AWS Resources'' (resources s)]))"

record ResourceTypeCount =
  stat_type :: AWSResourceType
  count :: nat
  totalCost :: real

definition getResourceStats :: "AWSResource list \<Rightarrow> ResourceTypeCount list" where
  "getResourceStats rs =
     map (\<lambda>t. \<lparr>stat_type = t,
               count = length (filter (\<lambda>r. type' r = t) rs),
               totalCost = foldl (\<lambda>acc r. acc + cost r) 0 (filter (\<lambda>r. type' r = t) rs)\<rparr>)
       [EC2, RDS, EBS, SNAPSHOT]"

definition filteredResources :: "selection \<Rightarrow> AWSResource list \<Rightarrow> AWSResource list" where
  "filteredResources sel rs =
     (case sel of ALL' \<Rightarrow> rs | Only t \<Rightarrow> filter (\<lambda>r. type' r = t) rs)"

definition setSelectedType :: "App \<Rightarrow> selection \<Rightarrow> App \<times> effect list" where
  "setSelectedType s sel = (s\<lparr>selectedType := sel\<rparr>, [])"

text \<open>The banner of lines 161-168, rendered when \<^verbatim>\<open>error\<close> is truthy: the text it shows.\<close>

definition banner :: "App \<Rightarrow> string option" where
  "banner s = (if truthy (error s) then error s else None)"

subsection \<open>The dashboard against the aggregator\<close>

text \<open>
  What the HTTP client makes of a response of the handler: a status from 200 to 299
  fulfils the request with the parsed body, any other rejects it, and the parsed body
  is then \<^verbatim>\<open>error.response.data\<close>. The empty body parses to the empty string, whose
  properties are all \<^verbatim>\<open>undefined\<close>, as those of an object without the two keys.
\<close>

definition parsed :: "body \<Rightarrow> ResourceResponse" where
  "parsed b =
     (case b of
        ResourcesBody rs \<Rightarrow> \<lparr>response_resources = Some rs, response_error = None\<rparr>
      | ErrorBody m \<Rightarrow> \<lparr>response_resources = None, response_error = Some m\<rparr>
      | MessageBody m \<Rightarrow> \<lparr>response_resources = None, response_error = None\<rparr>
      | EmptyBody \<Rightarrow> \<lparr>response_resources = None, response_error = None\<rparr>)"

definition axios_get :: "response \<Rightarrow> ResourceResponse option axios" where
  "axios_get r =
     (if 200 \<le> statusCode r \<and> statusCode r < 300 then Fulfilled (Some (parsed (body r)))
      else Rejected (response_error (parsed (body r))))"

definition get_resources :: event where
  "get_resources =
     \<lparr>httpMethod = Some ''GET'', requestContext_http_method = None,
      pathParameters_id = None\<rparr>"

text \<open>
  What happens to the component: a load answered by the aggregator (deployed with some
  environment, the provider answering somehow), a load the network fails, a click on a
  row's delete button, on the export button, on a filter button. The export button is
  disabled while the list is empty (line 102), so a click on it then runs nothing.

  Each handler runs here from its call to its last update with nothing in between. In
  the browser a delete that settles after the list changed writes back the filter of
  the list its closure holds, which is the list the component held when the button was
  clicked: the list it leaves is that of a shorter run ending in this delete, so the
  lists \<open>run\<close> reaches are those the component can hold.
\<close>

datatype happening =
  Load env provider
| LoadUnanswered
| DeleteRow string bool "unit axios"
| Export
| Select selection

fun step :: "App \<Rightarrow> happening \<Rightarrow> App" where
  "step s (Load penv p) = fst (loadResources s (axios_get (fst (handler penv get_resources p))))"
| "step s LoadUnanswered = fst (loadResources s (Rejected None))"
| "step s (DeleteRow ident confirmed reply) = fst (handleDelete s ident confirmed reply)"
| "step s Export = (if length (resources s) = 0 then s else fst (exportToExcel s))"
| "step s (Select sel) = fst (setSelectedType s sel)"

definition run :: "happening list \<Rightarrow> App" where
  "run hs = foldl step App_initial hs"

section \<open>Concrete inputs\<close>

definition eu_west :: env where
  "eu_west = \<lparr>AWS_REGION = Some ''eu-west-1''\<rparr>"

text \<open>A stopped instance whose description carries no tag collection.\<close>

definition tagless_instance :: Instance where
  "tagless_instance =
     \<lparr>InstanceId = ''i-1'', InstanceTags = None, InstanceState_Name = ''stopped'',
      LaunchTime = ''2024-01-01T00:00:00.000Z'', InstanceType = ''t3.micro''\<rparr>"

definition tagless_reply :: DescribeInstancesResult where
  "tagless_reply = \<lparr>Reservations = [\<lparr>Instances = [tagless_instance]\<rparr>]\<rparr>"

text \<open>A provider with nothing idle, answering the four calls at ticks 1 to 4.\<close>

definition quiet_provider :: provider where
  "quiet_provider =
     \<lparr>describeInstances = (1, Inr \<lparr>Reservations = []\<rparr>),
      describeDBInstances = (2, Inr \<lparr>DBInstances = []\<rparr>),
      describeVolumes = (3, Inr \<lparr>Volumes = []\<rparr>),
      describeSnapshots = (4, Inr \<lparr>Snapshots = []\<rparr>)\<rparr>"

text \<open>
  A provider with one stopped instance (tagged \<^verbatim>\<open>Name=web\<close>), two database instances of
  which one is stopped, and one available volume without a tag collection.
\<close>

definition busy_provider :: provider where
  "busy_provider =
     \<lparr>describeInstances =
        (4, Inr \<lparr>Reservations =
                  [\<lparr>Instances =
                      [\<lparr>InstanceId = ''i-1'',
                        InstanceTags = Some [\<lparr>Key = ''Name'', Value = ''web''\<rparr>],
                        InstanceState_Name = ''stopped'',
                        LaunchTime = ''2024-01-01T00:00:00.000Z'',
                        InstanceType = ''t3.micro''\<rparr>]\<rparr>]\<rparr>),
      describeDBInstances =
        (3, Inr \<lparr>DBInstances =
                  [\<lparr>DBInstanceIdentifier = ''db-1'', DBInstanceStatus = ''available'',
                    InstanceCreateTime = ''2023-05-01T00:00:00.000Z'',
                    DBInstanceClass = ''db.t3.micro'', Engine = ''postgres''\<rparr>,
                   \<lparr>DBInstanceIdentifier = ''db-2'', DBInstanceStatus = ''stopped'',
                    InstanceCreateTime = ''2023-06-01T00:00:00.000Z'',
                    DBInstanceClass = ''db.t3.micro'', Engine = ''mysql''\<rparr>]\<rparr>),
      describeVolumes =
        (2, Inr \<lparr>Volumes =
                  [\<lparr>VolumeId = ''v-1'', VolumeTags = None, VolumeState = ''available'',
                    CreateTime = ''2024-02-01T00:00:00.000Z'', Size = 8,
                    VolumeType = ''gp2''\<rparr>]\<rparr>),
      describeSnapshots = (1, Inr \<lparr>Snapshots = []\<rparr>)\<rparr>"

text \<open>The same provider, throttling the volume query and then failing the snapshot query.\<close>

definition failing_provider :: provider where
  "failing_provider =
     busy_provider
       \<lparr>describeVolumes := (2, Inl (ServiceError (Some ''Rate exceeded''))),
        describeSnapshots := (5, Inl (ServiceError None))\<rparr>"

text \<open>
  The same provider answering all four calls, its one instance described without a tag
  collection.
\<close>

definition untagged_provider :: provider where
  "untagged_provider = busy_provider\<lparr>describeInstances := (4, Inr tagless_reply)\<rparr>"

definition delete_without_id :: event where
  "delete_without_id =
     \<lparr>httpMethod = Some ''DELETE'', requestContext_http_method = None,
      pathParameters_id = None\<rparr>"

definition delete_with_empty_id :: event where
  "delete_with_empty_id =
     \<lparr>httpMethod = None, requestContext_http_method = Some ''DELETE'',
      pathParameters_id = Some []\<rparr>"

definition delete_unknown :: event where
  "delete_unknown =
     \<lparr>httpMethod = Some ''DELETE'', requestContext_http_method = None,
      pathParameters_id = Some ''no-such-resource''\<rparr>"

text \<open>Rows of the dashboard's table.\<close>

definition row :: "string \<Rightarrow> AWSResourceType \<Rightarrow> AWSResource" where
  "row ident t =
     \<lparr>id' = ident, type' = t, name = ident, region = Some ''eu-west-1'',
      state = ''stopped'', lastUsed = ''2024-01-01T00:00:00.000Z'', cost = 0,
      details = no_details\<rparr>"

definition loaded :: "AWSResource list \<Rightarrow> App" where
  "loaded rs = \<lparr>resources = rs, loading = False, error = None, selectedType = ALL'\<rparr>"

section \<open>Properties of the aggregator\<close>

subsection \<open>Traversals, promises and the four queries\<close>

lemma map_throwing_Inr: "map_throwing f xs = Inr ys \<Longrightarrow> map f xs = map Inr ys"
  by (induction xs arbitrary: ys) (auto split: sum.splits)

lemma map_throwing_Inl:
  "map_throwing f xs = Inl e \<Longrightarrow> \<exists>x \<in> set xs. f x = Inl e"
  by (induction xs) (auto split: sum.splits)

lemma map_throwing_total:
  "\<forall>x \<in> set xs. \<not> isl (f x) \<Longrightarrow> map_throwing f xs = Inr (map (\<lambda>x. projr (f x)) xs)"
  by (induction xs) (auto split: sum.splits)

lemma flatMap_throwing_Inr:
  "flatMap_throwing (\<lambda>x. map_throwing f (g x)) xs = Inr zs
     \<Longrightarrow> map f (concat (map g xs)) = map Inr zs"
  by (induction xs arbitrary: zs) (auto split: sum.splits dest: map_throwing_Inr)

lemma flatMap_throwing_Inl:
  "flatMap_throwing (\<lambda>x. map_throwing f (g x)) xs = Inl e
     \<Longrightarrow> \<exists>y \<in> set (concat (map g xs)). f y = Inl e"
  by (induction xs) (auto split: sum.splits dest: map_throwing_Inl)

lemma flatMap_throwing_total:
  "\<forall>y \<in> set (concat (map g xs)). \<not> isl (f y)
     \<Longrightarrow> flatMap_throwing (\<lambda>x. map_throwing f (g x)) xs
           = Inr (map (\<lambda>y. projr (f y)) (concat (map g xs)))"
  by (induction xs) (auto simp: map_throwing_total)


lemma first_rejection_None:
  "first_rejection ps = None \<longleftrightarrow> (\<forall>p \<in> set ps. \<not> isl (snd p))"
  by (induction ps rule: first_rejection.induct) (auto split: option.splits)

lemma first_rejection_Some:
  "first_rejection ps = Some (t, e) \<Longrightarrow> (t, Inl e) \<in> set ps"
  by (induction ps arbitrary: t e rule: first_rejection.induct) (auto split: option.splits if_splits)

lemma error_text_nonempty: "error_text e \<noteq> []"
  by (cases e) (auto simp: error_text_def split: option.splits)

lemma Promise_all_fulfilled:
  "Promise_all [(t1, Inr a), (t2, Inr b), (t3, Inr c), (t4, Inr d)] = Inr [a, b, c, d]"
  by (simp add: Promise_all_def)

lemma Promise_all_rejected:
  assumes "\<exists>p \<in> set ps. isl (snd p)"
  shows "\<exists>t e. Promise_all ps = Inl e \<and> (t, Inl e) \<in> set ps"
proof -
  from assms have "first_rejection ps \<noteq> None"
    by (simp add: first_rejection_None)
  then obtain t e where fr: "first_rejection ps = Some (t, e)"
    by (cases "first_rejection ps") auto
  then have "(t, Inl e) \<in> set ps"
    by (rule first_rejection_Some)
  with fr show ?thesis
    by (auto simp: Promise_all_def)
qed

lemma getEC2Resources_Inr:
  assumes "getEC2Resources penv q = Inr a"
  shows "\<exists>r. q = Inr r \<and>
           map (instance_resource penv) (concat (map Instances (Reservations r))) = map Inr a"
proof (cases q)
  case (Inl e)
  with assms show ?thesis by (simp add: getEC2Resources_def)
next
  case (Inr r)
  with assms have "flatMap_throwing
      (\<lambda>reservation. map_throwing (instance_resource penv) (Instances reservation))
      (Reservations r) = Inr a"
    by (simp add: getEC2Resources_def)
  then have "map (instance_resource penv) (concat (map Instances (Reservations r))) = map Inr a"
    by (rule flatMap_throwing_Inr)
  with Inr show ?thesis by simp
qed

lemma getRDSResources_Inr:
  "getRDSResources penv q = Inr b \<Longrightarrow>
     \<exists>r. q = Inr r \<and>
       b = map (dbinstance_resource penv)
             (filter (\<lambda>i. DBInstanceStatus i = ''stopped'') (DBInstances r))"
  by (cases q) (auto simp: getRDSResources_def)

lemma getEBSResources_Inr:
  "getEBSResources penv q = Inr c \<Longrightarrow>
     \<exists>r. q = Inr r \<and> c = map (volume_resource penv) (Volumes r)"
  by (cases q) (auto simp: getEBSResources_def)

lemma getSnapshots_Inr:
  "getSnapshots penv q = Inr d \<Longrightarrow>
     \<exists>r. q = Inr r \<and> d = map (snapshot_resource penv) (Snapshots r)"
  by (cases q) (auto simp: getSnapshots_def)

lemma handler_get_fulfilled:
  assumes "httpMethod_of event = Some ''GET''"
    and "getEC2Resources penv (snd (describeInstances p)) = Inr a"
    and "getRDSResources penv (snd (describeDBInstances p)) = Inr b"
    and "getEBSResources penv (snd (describeVolumes p)) = Inr c"
    and "getSnapshots penv (snd (describeSnapshots p)) = Inr d"
  shows "handler penv event p =
           (\<lparr>statusCode = 200, headers = cors_headers,
             body = ResourcesBody (a @ b @ c @ d)\<rparr>, list_calls)"
  using assms by (simp add: handler_def try_block_def Promise_all_fulfilled)

lemma handler_get_rejected:
  assumes "httpMethod_of event = Some ''GET''"
    and "isl (getEC2Resources penv (snd (describeInstances p)))
         \<or> isl (getRDSResources penv (snd (describeDBInstances p)))
         \<or> isl (getEBSResources penv (snd (describeVolumes p)))
         \<or> isl (getSnapshots penv (snd (describeSnapshots p)))"
  shows "\<exists>e. handler penv event p =
           (\<lparr>statusCode = 500, headers = plain_headers, body = ErrorBody (error_text e)\<rparr>,
            list_calls)"
proof -
  let ?ps = "[(fst (describeInstances p), getEC2Resources penv (snd (describeInstances p))),
              (fst (describeDBInstances p), getRDSResources penv (snd (describeDBInstances p))),
              (fst (describeVolumes p), getEBSResources penv (snd (describeVolumes p))),
              (fst (describeSnapshots p), getSnapshots penv (snd (describeSnapshots p)))]"
  from assms(2) have "\<exists>q \<in> set ?ps. isl (snd q)"
    by auto
  then obtain e where "Promise_all ?ps = Inl e"
    using Promise_all_rejected by blast
  with assms(1) show ?thesis
    by (auto simp: handler_def try_block_def)
qed

lemma get_resources_method: "httpMethod_of get_resources = Some ''GET''"
  by (simp add: get_resources_def httpMethod_of_def truthy_def)

lemma busy_queries:
  "getEC2Resources eu_west (snd (describeInstances busy_provider))
     = Inr [\<lparr>id' = ''i-1'', type' = EC2, name = ''web'', region = Some ''eu-west-1'',
             state = ''stopped'', lastUsed = ''2024-01-01T00:00:00.000Z'', cost = 0,
             details = no_details\<lparr>instanceType := Some ''t3.micro''\<rparr>\<rparr>]"
  "getRDSResources eu_west (snd (describeDBInstances busy_provider))
     = Inr [\<lparr>id' = ''db-2'', type' = RDS, name = ''db-2'', region = Some ''eu-west-1'',
             state = ''stopped'', lastUsed = ''2023-06-01T00:00:00.000Z'', cost = 0,
             details = no_details\<lparr>instanceType := Some ''db.t3.micro'',
                                  engine := Some ''mysql''\<rparr>\<rparr>]"
  "getEBSResources eu_west (snd (describeVolumes busy_provider))
     = Inr [\<lparr>id' = ''v-1'', type' = EBS, name = ''v-1'', region = Some ''eu-west-1'',
             state = ''available'', lastUsed = ''2024-02-01T00:00:00.000Z'', cost = 0,
             details = no_details\<lparr>volumeSize := Some 8, volumeType := Some ''gp2''\<rparr>\<rparr>]"
  "getSnapshots eu_west (snd (describeSnapshots busy_provider)) = Inr []"
  by (simp_all add: busy_provider_def eu_west_def getEC2Resources_def instance_resource_def
      name_tag_or_def getRDSResources_def dbinstance_resource_def getEBSResources_def
      volume_resource_def getSnapshots_def snapshot_resource_def)

lemma quiet_queries:
  "getEC2Resources eu_west (snd (describeInstances quiet_provider)) = Inr []"
  "getRDSResources eu_west (snd (describeDBInstances quiet_provider)) = Inr []"
  "getEBSResources eu_west (snd (describeVolumes quiet_provider)) = Inr []"
  "getSnapshots eu_west (snd (describeSnapshots quiet_provider)) = Inr []"
  by (simp_all add: quiet_provider_def getEC2Resources_def getRDSResources_def
      getEBSResources_def getSnapshots_def)

subsection \<open>Name resolution without a tag collection\<close>

text \<open>
  A database instance is always named by its identifier, and a volume or a snapshot
  without a tag collection by its id; none of the three mappings can throw.
\<close>

lemma untagged_names:
  "name (dbinstance_resource penv i) = id' (dbinstance_resource penv i)"
  "VolumeTags v = None \<Longrightarrow> name (volume_resource penv v) = id' (volume_resource penv v)"
  "SnapshotTags s = None \<Longrightarrow> name (snapshot_resource penv s) = id' (snapshot_resource penv s)"
  by (simp_all add: dbinstance_resource_def volume_resource_def snapshot_resource_def)

text \<open>An instance without a tag collection makes its mapping throw.\<close>

lemma instance_resource_untagged:
  "InstanceTags i = None \<Longrightarrow> instance_resource penv i = Inl (TypeError ''find'')"
  by (simp add: instance_resource_def)

text \<open>
  So the instance query fulfils exactly when the SDK call does and every instance it
  describes carries a tag collection, and the only exception its mapping throws is that
  \<^verbatim>\<open>TypeError\<close>; each of the other three queries fulfils exactly when its SDK call does.
\<close>

lemma getEC2Resources_fulfils_iff:
  "(\<exists>a. getEC2Resources penv q = Inr a) \<longleftrightarrow>
     (\<exists>r. q = Inr r \<and>
        (\<forall>i \<in> set (concat (map Instances (Reservations r))). InstanceTags i \<noteq> None))"
proof
  assume "\<exists>a. getEC2Resources penv q = Inr a"
  then obtain a where a: "getEC2Resources penv q = Inr a" ..
  then obtain r :: DescribeInstancesResult where r: "q = Inr r"
    and m: "map (instance_resource penv) (concat (map Instances (Reservations r))) = map Inr a"
    using getEC2Resources_Inr by blast
  have "InstanceTags i \<noteq> None" if "i \<in> set (concat (map Instances (Reservations r)))" for i
  proof
    assume "InstanceTags i = None"
    then have "instance_resource penv i = Inl (TypeError ''find'')"
      by (rule instance_resource_untagged)
    with that have "Inl (TypeError ''find'')
        \<in> set (map (instance_resource penv) (concat (map Instances (Reservations r))))"
      by (metis image_eqI list.set_map)
    with m show False by auto
  qed
  with r show "\<exists>r. q = Inr r \<and>
        (\<forall>i \<in> set (concat (map Instances (Reservations r))). InstanceTags i \<noteq> None)"
    by blast
next
  assume "\<exists>r. q = Inr r \<and>
        (\<forall>i \<in> set (concat (map Instances (Reservations r))). InstanceTags i \<noteq> None)"
  then obtain r where r: "q = Inr r"
    and t: "\<forall>i \<in> set (concat (map Instances (Reservations r))). InstanceTags i \<noteq> None"
    by blast
  from t have "\<forall>i \<in> set (concat (map Instances (Reservations r))).
      \<not> isl (instance_resource penv i)"
    by (auto simp: instance_resource_def split: option.splits)
  then have "flatMap_throwing
      (\<lambda>reservation. map_throwing (instance_resource penv) (Instances reservation))
      (Reservations r)
      = Inr (map (\<lambda>i. projr (instance_resource penv i))
               (concat (map Instances (Reservations r))))"
    by (rule flatMap_throwing_total)
  with r show "\<exists>a. getEC2Resources penv q = Inr a"
    by (simp add: getEC2Resources_def)
qed

lemma other_queries_fulfil_iff:
  "(\<exists>b. getRDSResources penv q2 = Inr b) \<longleftrightarrow> (\<exists>r. q2 = Inr r)"
  "(\<exists>c. getEBSResources penv q3 = Inr c) \<longleftrightarrow> (\<exists>r. q3 = Inr r)"
  "(\<exists>d. getSnapshots penv q4 = Inr d) \<longleftrightarrow> (\<exists>r. q4 = Inr r)"
proof -
  show "(\<exists>b. getRDSResources penv q2 = Inr b) \<longleftrightarrow> (\<exists>r. q2 = Inr r)"
    by (cases q2) (simp_all add: getRDSResources_def)
  show "(\<exists>c. getEBSResources penv q3 = Inr c) \<longleftrightarrow> (\<exists>r. q3 = Inr r)"
    by (cases q3) (simp_all add: getEBSResources_def)
  show "(\<exists>d. getSnapshots penv q4 = Inr d) \<longleftrightarrow> (\<exists>r. q4 = Inr r)"
    by (cases q4) (simp_all add: getSnapshots_def)
qed

lemma getEC2Resources_Inl:
  "getEC2Resources penv (Inr r) = Inl e \<Longrightarrow> e = TypeError ''find''"
  by (auto simp: getEC2Resources_def instance_resource_def split: option.splits
      dest!: flatMap_throwing_Inl)

text \<open>
  C1. The claim: a provider record of any of the four kinds whose tag collection is
  absent is mapped without an exception to a resource named by its id. For a stopped
  instance the code does otherwise: \<^verbatim>\<open>getEC2Resources\<close> on a description with one
  instance that has no tag collection throws the \<^verbatim>\<open>TypeError\<close> of reading \<^verbatim>\<open>find\<close> of
  \<^verbatim>\<open>undefined\<close>, and the GET request is answered with status 500 and no resource.
\<close>

theorem getEC2Resources_raises_without_tags:
  "getEC2Resources eu_west (Inr tagless_reply) = Inl (TypeError ''find'')
   \<and> fst (handler eu_west get_resources
            (quiet_provider\<lparr>describeInstances := (1, Inr tagless_reply)\<rparr>))
       = \<lparr>statusCode = 500, headers = plain_headers,
          body = ErrorBody (error_text (TypeError ''find''))\<rparr>"
  by (simp add: getEC2Resources_def tagless_reply_def tagless_instance_def
      instance_resource_def handler_def try_block_def get_resources_def httpMethod_of_def
      truthy_def quiet_provider_def Promise_all_def getRDSResources_def getEBSResources_def
      getSnapshots_def)

subsection \<open>DELETE without an id\<close>

text \<open>
  C2, as the code has it. A DELETE request whose path gives no id, or the empty id, is
  answered with status 500 and the message \<^verbatim>\<open>Resource ID is required\<close>, whatever the
  provider holds, and no SDK call is issued.
\<close>

theorem delete_without_id_is_500:
  assumes "httpMethod_of event = Some ''DELETE''"
    and "pathParameters_id event = None \<or> pathParameters_id event = Some []"
  shows "handler penv event p =
           (\<lparr>statusCode = 500, headers = plain_headers,
             body = ErrorBody ''Resource ID is required''\<rparr>, [])"
  using assms by (auto simp: handler_def try_block_def error_text_def)

theorem delete_without_id_is_500_witness:
  "handler eu_west delete_without_id busy_provider =
     (\<lparr>statusCode = 500, headers = plain_headers,
       body = ErrorBody ''Resource ID is required''\<rparr>, [])
   \<and> handler eu_west delete_with_empty_id busy_provider =
     (\<lparr>statusCode = 500, headers = plain_headers,
       body = ErrorBody ''Resource ID is required''\<rparr>, [])"
  using delete_without_id_is_500 [of delete_without_id eu_west busy_provider]
    delete_without_id_is_500 [of delete_with_empty_id eu_west busy_provider]
  by (simp add: delete_without_id_def delete_with_empty_id_def httpMethod_of_def truthy_def)

text \<open>
  C2 as stated asks for status 400: neither the request without an id nor the request
  with the empty id is answered with it.
\<close>

theorem delete_without_id_not_400:
  "statusCode (fst (handler eu_west delete_without_id quiet_provider)) \<noteq> 400
   \<and> statusCode (fst (handler eu_west delete_with_empty_id quiet_provider)) \<noteq> 400"
  by (simp add: handler_def try_block_def delete_without_id_def delete_with_empty_id_def
      httpMethod_of_def truthy_def)

subsection \<open>The list\<close>

text \<open>
  On a GET request whose four query functions all fulfil, the handler answers 200 with
  the four arrays concatenated in the order instances, database instances, volumes,
  snapshots, and nothing is sorted: the resources of the instances are those of the
  provider's instances, reservation by reservation, in the provider's order; those of
  the database instances are the stopped ones in the provider's order; those of the
  volumes and of the snapshots follow the provider's order. Nothing is asked of the
  lengths, so the four arrays may be empty.
\<close>

lemma list_of_fulfilled_queries:
  assumes "httpMethod_of event = Some ''GET''"
    and "getEC2Resources penv (snd (describeInstances p)) = Inr ec2Resources"
    and "getRDSResources penv (snd (describeDBInstances p)) = Inr rdsResources"
    and "getEBSResources penv (snd (describeVolumes p)) = Inr ebsResources"
    and "getSnapshots penv (snd (describeSnapshots p)) = Inr snapshotResources"
  shows "handler penv event p =
           (\<lparr>statusCode = 200, headers = cors_headers,
             body = ResourcesBody
                      (ec2Resources @ rdsResources @ ebsResources @ snapshotResources)\<rparr>,
            list_calls)
         \<and> (\<exists>r. snd (describeInstances p) = Inr r
                \<and> map (instance_resource penv) (concat (map Instances (Reservations r)))
                    = map Inr ec2Resources)
         \<and> (\<exists>r. snd (describeDBInstances p) = Inr r
                \<and> rdsResources
                    = map (dbinstance_resource penv)
                        (filter (\<lambda>i. DBInstanceStatus i = ''stopped'') (DBInstances r)))
         \<and> (\<exists>r. snd (describeVolumes p) = Inr r
                \<and> ebsResources = map (volume_resource penv) (Volumes r))
         \<and> (\<exists>r. snd (describeSnapshots p) = Inr r
                \<and> snapshotResources = map (snapshot_resource penv) (Snapshots r))"
  using handler_get_fulfilled [OF assms] getEC2Resources_Inr [OF assms(2)]
    getRDSResources_Inr [OF assms(3)] getEBSResources_Inr [OF assms(4)]
    getSnapshots_Inr [OF assms(5)]
  by simp

lemma list_of_busy_and_quiet_provider:
  "fst (handler eu_west get_resources busy_provider) =
     \<lparr>statusCode = 200, headers = cors_headers,
      body = ResourcesBody
        [\<lparr>id' = ''i-1'', type' = EC2, name = ''web'', region = Some ''eu-west-1'',
          state = ''stopped'', lastUsed = ''2024-01-01T00:00:00.000Z'', cost = 0,
          details = no_details\<lparr>instanceType := Some ''t3.micro''\<rparr>\<rparr>,
         \<lparr>id' = ''db-2'', type' = RDS, name = ''db-2'', region = Some ''eu-west-1'',
          state = ''stopped'', lastUsed = ''2023-06-01T00:00:00.000Z'', cost = 0,
          details = no_details\<lparr>instanceType := Some ''db.t3.micro'',
                               engine := Some ''mysql''\<rparr>\<rparr>,
         \<lparr>id' = ''v-1'', type' = EBS, name = ''v-1'', region = Some ''eu-west-1'',
          state = ''available'', lastUsed = ''2024-02-01T00:00:00.000Z'', cost = 0,
          details = no_details\<lparr>volumeSize := Some 8, volumeType := Some ''gp2''\<rparr>\<rparr>]\<rparr>
   \<and> fst (handler eu_west get_resources quiet_provider) =
     \<lparr>statusCode = 200, headers = cors_headers, body = ResourcesBody []\<rparr>"
  using list_of_fulfilled_queries [OF get_resources_method busy_queries]
    list_of_fulfilled_queries [OF get_resources_method quiet_queries]
  by simp

text \<open>
  In terms of the provider's answers: when the provider answers all four calls and every
  instance it describes carries a tag collection, the list is the concatenation of the
  four mapped answers in that order.
\<close>

lemma list_of_tagged_replies:
  assumes get: "httpMethod_of event = Some ''GET''"
    and r1: "snd (describeInstances p) = Inr r1"
    and r2: "snd (describeDBInstances p) = Inr r2"
    and r3: "snd (describeVolumes p) = Inr r3"
    and r4: "snd (describeSnapshots p) = Inr r4"
    and tagged: "\<forall>i \<in> set (concat (map Instances (Reservations r1))). InstanceTags i \<noteq> None"
  shows "handler penv event p =
           (\<lparr>statusCode = 200, headers = cors_headers,
             body = ResourcesBody
               (map (\<lambda>i. projr (instance_resource penv i))
                    (concat (map Instances (Reservations r1)))
                @ map (dbinstance_resource penv)
                    (filter (\<lambda>i. DBInstanceStatus i = ''stopped'') (DBInstances r2))
                @ map (volume_resource penv) (Volumes r3)
                @ map (snapshot_resource penv) (Snapshots r4))\<rparr>,
            list_calls)"
proof -
  from tagged have "\<forall>i \<in> set (concat (map Instances (Reservations r1))).
      \<not> isl (instance_resource penv i)"
    by (auto simp: instance_resource_def split: option.splits)
  then have "flatMap_throwing
      (\<lambda>reservation. map_throwing (instance_resource penv) (Instances reservation))
      (Reservations r1)
      = Inr (map (\<lambda>i. projr (instance_resource penv i))
               (concat (map Instances (Reservations r1))))"
    by (rule flatMap_throwing_total)
  then have a: "getEC2Resources penv (snd (describeInstances p))
      = Inr (map (\<lambda>i. projr (instance_resource penv i))
               (concat (map Instances (Reservations r1))))"
    by (simp add: getEC2Resources_def r1)
  have b: "getRDSResources penv (snd (describeDBInstances p))
      = Inr (map (dbinstance_resource penv)
               (filter (\<lambda>i. DBInstanceStatus i = ''stopped'') (DBInstances r2)))"
    by (simp add: getRDSResources_def r2)
  have c: "getEBSResources penv (snd (describeVolumes p))
      = Inr (map (volume_resource penv) (Volumes r3))"
    by (simp add: getEBSResources_def r3)
  have d: "getSnapshots penv (snd (describeSnapshots p))
      = Inr (map (snapshot_resource penv) (Snapshots r4))"
    by (simp add: getSnapshots_def r4)
  show ?thesis
    by (rule handler_get_fulfilled [OF get a b c d])
qed

text \<open>
  C3. The claim: on a GET request whose four provider queries succeed, the list returned
  is the concatenation of the four normalised sublists in the order instances, database
  instances, volumes, snapshots. The code does otherwise when an instance is described
  without a tag collection: the provider answers all four calls, a database instance
  and a volume among the answers, and the handler answers 500 with no list at all.
\<close>

theorem list_lost_to_untagged_instance:
  "\<not> isl (snd (describeInstances untagged_provider))
   \<and> \<not> isl (snd (describeDBInstances untagged_provider))
   \<and> \<not> isl (snd (describeVolumes untagged_provider))
   \<and> \<not> isl (snd (describeSnapshots untagged_provider))
   \<and> fst (handler eu_west get_resources untagged_provider)
       = \<lparr>statusCode = 500, headers = plain_headers,
          body = ErrorBody (error_text (TypeError ''find''))\<rparr>
   \<and> body_resources (body (fst (handler eu_west get_resources untagged_provider))) = []"
  by (simp add: untagged_provider_def busy_provider_def tagless_reply_def
      tagless_instance_def handler_def try_block_def get_resources_method
      getEC2Resources_def instance_resource_def getRDSResources_def getEBSResources_def
      getSnapshots_def Promise_all_def body_resources_def)

text \<open>
  C4. On a GET request of which at least one of the four queries rejects, the handler
  answers with the one status 500 and an error body whose message is not empty, and the
  body carries no resource, whatever the other queries returned.
\<close>

theorem failed_query_fails_the_list:
  assumes "httpMethod_of event = Some ''GET''"
    and "isl (getEC2Resources penv (snd (describeInstances p)))
         \<or> isl (getRDSResources penv (snd (describeDBInstances p)))
         \<or> isl (getEBSResources penv (snd (describeVolumes p)))
         \<or> isl (getSnapshots penv (snd (describeSnapshots p)))"
  shows "statusCode (fst (handler penv event p)) = 500
         \<and> (\<exists>m. m \<noteq> [] \<and> body (fst (handler penv event p)) = ErrorBody m)
         \<and> body_resources (body (fst (handler penv event p))) = []"
proof -
  obtain e where "handler penv event p =
      (\<lparr>statusCode = 500, headers = plain_headers, body = ErrorBody (error_text e)\<rparr>,
       list_calls)"
    using handler_get_rejected [OF assms] by blast
  then show ?thesis
    by (simp add: body_resources_def error_text_nonempty)
qed

text \<open>A rejected SDK call rejects its query.\<close>

lemma sdk_rejection_rejects_query:
  "getEC2Resources penv (Inl e) = Inl e"
  "getRDSResources penv (Inl e) = Inl e"
  "getEBSResources penv (Inl e) = Inl e"
  "getSnapshots penv (Inl e) = Inl e"
  by (simp_all add: getEC2Resources_def getRDSResources_def getEBSResources_def
      getSnapshots_def)

lemma failing_queries:
  "isl (getEC2Resources eu_west (snd (describeInstances failing_provider)))
   \<or> isl (getRDSResources eu_west (snd (describeDBInstances failing_provider)))
   \<or> isl (getEBSResources eu_west (snd (describeVolumes failing_provider)))
   \<or> isl (getSnapshots eu_west (snd (describeSnapshots failing_provider)))"
  by (simp add: failing_provider_def busy_provider_def getEBSResources_def)

text \<open>
  The volume query is throttled at tick 2 and the snapshot query fails at tick 5, the
  other two succeed: the answer carries the message of the rejection that came first.
\<close>

theorem failed_query_fails_the_list_witness:
  "fst (handler eu_west get_resources failing_provider) =
     \<lparr>statusCode = 500, headers = plain_headers, body = ErrorBody ''Rate exceeded''\<rparr>
   \<and> statusCode (fst (handler eu_west get_resources failing_provider)) = 500
   \<and> body_resources (body (fst (handler eu_west get_resources failing_provider))) = []"
  using failed_query_fails_the_list [OF get_resources_method failing_queries]
  by (simp add: handler_def try_block_def get_resources_method failing_provider_def
      busy_provider_def getEC2Resources_def instance_resource_def getRDSResources_def
      getEBSResources_def getSnapshots_def Promise_all_def error_text_def)

subsection \<open>DELETE with an id\<close>

text \<open>
  C5. A DELETE request with a non-empty id is answered with status 200 and the message
  that the resource was deleted. The answer is the same for every environment and
  every provider, so it depends neither on the id naming a resource nor on a type, and
  the handler issues no SDK call at all.
\<close>

theorem delete_reports_success:
  assumes "httpMethod_of event = Some ''DELETE''"
    and "pathParameters_id event = Some resourceId"
    and "resourceId \<noteq> []"
  shows "handler penv event p =
           (\<lparr>statusCode = 200, headers = cors_headers,
             body = MessageBody (''Resource '' @ resourceId @ '' deleted successfully'')\<rparr>,
            [])"
  using assms by (simp add: handler_def try_block_def)

theorem delete_reports_success_witness:
  "handler eu_west delete_unknown busy_provider =
     (\<lparr>statusCode = 200, headers = cors_headers,
       body = MessageBody ''Resource no-such-resource deleted successfully''\<rparr>, [])
   \<and> handler eu_west delete_unknown quiet_provider =
     (\<lparr>statusCode = 200, headers = cors_headers,
       body = MessageBody ''Resource no-such-resource deleted successfully''\<rparr>, [])"
  using delete_reports_success [of delete_unknown "''no-such-resource''" eu_west busy_provider]
    delete_reports_success [of delete_unknown "''no-such-resource''" eu_west quiet_provider]
  by (simp add: delete_unknown_def httpMethod_of_def truthy_def)

section \<open>Properties of the dashboard\<close>

subsection \<open>Every loaded resource costs nothing\<close>

text \<open>
  The resources the component holds all come from a body of the handler, whose queries
  write \<^verbatim>\<open>cost: 0\<close> into every resource; deleting, exporting and filtering add none.
\<close>

lemma foldl_cost_zero:
  "\<forall>r \<in> set xs. cost r = 0 \<Longrightarrow> foldl (\<lambda>acc r. acc + cost r) a xs = a"
  by (induction xs arbitrary: a) auto

lemma counts_partition:
  "length (filter (\<lambda>r. type' r = EC2) rs) + length (filter (\<lambda>r. type' r = RDS) rs)
     + length (filter (\<lambda>r. type' r = EBS) rs) + length (filter (\<lambda>r. type' r = SNAPSHOT) rs)
   = length rs"
proof (induction rs)
  case Nil
  then show ?case by simp
next
  case (Cons r rs)
  then show ?case by (cases "type' r") simp_all
qed

lemma instance_resource_cost: "instance_resource penv i = Inr r \<Longrightarrow> cost r = 0"
  by (auto simp: instance_resource_def split: option.splits)

lemma getEC2Resources_cost:
  assumes "getEC2Resources penv q = Inr a" and "r \<in> set a"
  shows "cost r = 0"
proof -
  obtain d :: DescribeInstancesResult
    where "map (instance_resource penv) (concat (map Instances (Reservations d))) = map Inr a"
    using getEC2Resources_Inr [OF assms(1)] by blast
  then have "Inr r
      \<in> set (map (instance_resource penv) (concat (map Instances (Reservations d))))"
    using assms(2) by simp
  then obtain i where "instance_resource penv i = Inr r"
    by auto
  then show ?thesis
    by (rule instance_resource_cost)
qed

lemma getRDSResources_cost: "getRDSResources penv q = Inr b \<Longrightarrow> r \<in> set b \<Longrightarrow> cost r = 0"
  by (cases q) (auto simp: getRDSResources_def dbinstance_resource_def)

lemma getEBSResources_cost: "getEBSResources penv q = Inr c \<Longrightarrow> r \<in> set c \<Longrightarrow> cost r = 0"
  by (cases q) (auto simp: getEBSResources_def volume_resource_def)

lemma getSnapshots_cost: "getSnapshots penv q = Inr d \<Longrightarrow> r \<in> set d \<Longrightarrow> cost r = 0"
  by (cases q) (auto simp: getSnapshots_def snapshot_resource_def)

lemma handler_other_methods:
  "httpMethod_of event \<noteq> Some ''GET'' \<Longrightarrow>
     body_resources (body (fst (handler penv event p))) = []"
  by (simp add: handler_def try_block_def body_resources_def split: option.splits)

lemma handler_resources_cost:
  assumes "r \<in> set (body_resources (body (fst (handler penv event p))))"
  shows "cost r = 0"
proof (cases "httpMethod_of event = Some ''GET''")
  case False
  with assms show ?thesis by (simp add: handler_other_methods)
next
  case get: True
  show ?thesis
  proof (cases "isl (getEC2Resources penv (snd (describeInstances p)))
         \<or> isl (getRDSResources penv (snd (describeDBInstances p)))
         \<or> isl (getEBSResources penv (snd (describeVolumes p)))
         \<or> isl (getSnapshots penv (snd (describeSnapshots p)))")
    case True
    then obtain e where "handler penv event p =
      (\<lparr>statusCode = 500, headers = plain_headers, body = ErrorBody (error_text e)\<rparr>,
       list_calls)"
      using handler_get_rejected [OF get] by blast
    with assms show ?thesis by (simp add: body_resources_def)
  next
    case False
    then obtain a b c d where q:
      "getEC2Resources penv (snd (describeInstances p)) = Inr a"
      "getRDSResources penv (snd (describeDBInstances p)) = Inr b"
      "getEBSResources penv (snd (describeVolumes p)) = Inr c"
      "getSnapshots penv (snd (describeSnapshots p)) = Inr d"
      by (metis isl_def sum.exhaust)
    from assms have "r \<in> set a \<union> set b \<union> set c \<union> set d"
      by (simp add: handler_get_fulfilled [OF get q] body_resources_def)
    then show ?thesis
      using getEC2Resources_cost [OF q(1)] getRDSResources_cost [OF q(2)]
        getEBSResources_cost [OF q(3)] getSnapshots_cost [OF q(4)]
      by blast
  qed
qed

lemma loaded_from_body:
  "set (resources (fst (loadResources s (axios_get r)))) \<subseteq> set (body_resources (body r))"
  by (cases "body r")
    (simp_all add: loadResources_def fetchResources_def axios_get_def parsed_def truthy_def
      body_resources_def)

lemma step_cost:
  assumes "\<forall>r \<in> set (resources s). cost r = 0"
  shows "\<forall>r \<in> set (resources (step s h)). cost r = 0"
proof (cases h)
  case (Load penv p)
  then show ?thesis
    using loaded_from_body [of s "fst (handler penv get_resources p)"] handler_resources_cost
    by auto
next
  case LoadUnanswered
  then show ?thesis
    by (simp add: loadResources_def fetchResources_def truthy_def)
next
  case (DeleteRow ident confirmed reply)
  with assms show ?thesis
    by (cases reply) (simp_all add: handleDelete_def deleteResource_def)
next
  case Export
  with assms show ?thesis by (simp add: exportToExcel_def)
next
  case (Select sel)
  with assms show ?thesis by (simp add: setSelectedType_def)
qed

lemma foldl_step_cost:
  "\<forall>r \<in> set (resources s). cost r = 0 \<Longrightarrow>
     \<forall>r \<in> set (resources (foldl step s hs)). cost r = 0"
proof (induction hs arbitrary: s)
  case Nil
  then show ?case by simp
next
  case (Cons h hs)
  from Cons.prems have "\<forall>r \<in> set (resources (step s h)). cost r = 0"
    by (rule step_cost)
  then show ?case
    using Cons.IH by simp
qed

lemma run_cost: "\<forall>r \<in> set (resources (run hs)). cost r = 0"
  unfolding run_def by (rule foldl_step_cost) (simp add: App_initial_def)

lemma run_busy:
  "resources (run [Load eu_west busy_provider]) =
     [\<lparr>id' = ''i-1'', type' = EC2, name = ''web'', region = Some ''eu-west-1'',
          state = ''stopped'', lastUsed = ''2024-01-01T00:00:00.000Z'', cost = 0,
          details = no_details\<lparr>instanceType := Some ''t3.micro''\<rparr>\<rparr>,
         \<lparr>id' = ''db-2'', type' = RDS, name = ''db-2'', region = Some ''eu-west-1'',
          state = ''stopped'', lastUsed = ''2023-06-01T00:00:00.000Z'', cost = 0,
          details = no_details\<lparr>instanceType := Some ''db.t3.micro'',
                               engine := Some ''mysql''\<rparr>\<rparr>,
         \<lparr>id' = ''v-1'', type' = EBS, name = ''v-1'', region = Some ''eu-west-1'',
          state = ''available'', lastUsed = ''2024-02-01T00:00:00.000Z'', cost = 0,
          details = no_details\<lparr>volumeSize := Some 8, volumeType := Some ''gp2''\<rparr>\<rparr>]"
  by (simp add: run_def App_initial_def loadResources_def fetchResources_def axios_get_def
      parsed_def truthy_def handler_get_fulfilled [OF get_resources_method busy_queries])

subsection \<open>Summary tiles\<close>

text \<open>
  C7. For every list, the four tiles are those of the four types in their order and
  their counts add up to the length of the list; and for the list the component holds
  after anything that can happen to it, however often it loaded, deleted, exported or
  filtered, the total cost of every tile is 0.
\<close>

theorem summary_counts_and_costs:
  "sum_list (map count (getResourceStats rs)) = length rs
   \<and> map stat_type (getResourceStats rs) = [EC2, RDS, EBS, SNAPSHOT]
   \<and> map totalCost (getResourceStats (resources (run hs))) = [0, 0, 0, 0]"
proof -
  have "\<And>t. \<forall>r \<in> set (filter (\<lambda>r. type' r = t) (resources (run hs))). cost r = 0"
    using run_cost [of hs] by simp
  then have "\<And>t. foldl (\<lambda>acc r. acc + cost r) 0
                 (filter (\<lambda>r. type' r = t) (resources (run hs))) = 0"
    by (rule foldl_cost_zero)
  then show ?thesis
    using counts_partition [of rs] by (simp add: getResourceStats_def)
qed

theorem summary_counts_and_costs_witness:
  "map count (getResourceStats (resources (run [Load eu_west busy_provider]))) = [1, 1, 1, 0]
   \<and> map totalCost (getResourceStats (resources (run [Load eu_west busy_provider])))
       = [0, 0, 0, 0]"
  using summary_counts_and_costs
    [of "resources (run [Load eu_west busy_provider])" "[Load eu_west busy_provider]"]
  by (simp add: run_busy getResourceStats_def)

subsection \<open>Filter\<close>

text \<open>
  C8. The visible rows are a function of the selection and the list alone: with the
  selection \<^verbatim>\<open>ALL\<close> they are the list itself, with a type they are the elements of that
  type in the order of the list. Selecting is a state update that issues no request
  and leaves the list as it is.
\<close>

theorem filter_selects_by_type:
  "filteredResources ALL' rs = rs
   \<and> filteredResources (Only t) rs = filter (\<lambda>r. type' r = t) rs
   \<and> snd (setSelectedType s sel) = []
   \<and> resources (fst (setSelectedType s sel)) = resources s
   \<and> selectedType (fst (setSelectedType s sel)) = sel"
  by (simp add: filteredResources_def setSelectedType_def)

theorem filter_selects_by_type_witness:
  "filteredResources ALL' [row ''v-1'' EBS, row ''i-1'' EC2, row ''v-2'' EBS]
     = [row ''v-1'' EBS, row ''i-1'' EC2, row ''v-2'' EBS]
   \<and> filteredResources (Only EBS) [row ''v-1'' EBS, row ''i-1'' EC2, row ''v-2'' EBS]
     = [row ''v-1'' EBS, row ''v-2'' EBS]
   \<and> filteredResources (Only RDS) [row ''v-1'' EBS, row ''i-1'' EC2, row ''v-2'' EBS] = []"
  using filter_selects_by_type
      [of "[row ''v-1'' EBS, row ''i-1'' EC2, row ''v-2'' EBS]" EBS App_initial ALL']
    filter_selects_by_type
      [of "[row ''v-1'' EBS, row ''i-1'' EC2, row ''v-2'' EBS]" RDS App_initial ALL']
  by (simp add: row_def)

subsection \<open>Export\<close>

text \<open>
  C9. Export on an empty list writes no file and sets the error, which the banner then
  shows to the operator; on a non-empty list it writes one file whose rows are the
  whole loaded list, whatever the selected type is, and changes no state.
\<close>

theorem export_writes_the_loaded_list:
  "exportToExcel s =
     (if resources s = [] then (s\<lparr>error := Some ''No resources available to export''\<rparr>, [])
      else (s, [WriteFile ''aws-resources.xlsx'' ''AWS Resources'' (resources s)]))
   \<and> banner (fst (exportToExcel s)) =
     (if resources s = [] then Some ''No resources available to export'' else banner s)"
  by (simp add: exportToExcel_def banner_def truthy_def)

theorem export_writes_the_loaded_list_witness:
  "exportToExcel (loaded []) =
     ((loaded [])\<lparr>error := Some ''No resources available to export''\<rparr>, [])
   \<and> banner (fst (exportToExcel (loaded []))) = Some ''No resources available to export''
   \<and> filteredResources (Only EBS) [row ''i-1'' EC2, row ''v-1'' EBS] = [row ''v-1'' EBS]
   \<and> snd (exportToExcel ((loaded [row ''i-1'' EC2, row ''v-1'' EBS])\<lparr>selectedType := Only EBS\<rparr>))
       = [WriteFile ''aws-resources.xlsx'' ''AWS Resources'' [row ''i-1'' EC2, row ''v-1'' EBS]]"
  using export_writes_the_loaded_list [of "loaded []"]
    export_writes_the_loaded_list
      [of "(loaded [row ''i-1'' EC2, row ''v-1'' EBS])\<lparr>selectedType := Only EBS\<rparr>"]
  by (simp add: loaded_def filteredResources_def row_def banner_def truthy_def)

subsection \<open>Delete row\<close>

text \<open>
  C6, as the code has it. \<^verbatim>\<open>handleDelete\<close> looks at no id: it issues one DELETE request
  for \<^verbatim>\<open>/resources/\<close> followed by the id when the operator confirms, and none when the
  operator declines, for the empty id as for any other.
\<close>

theorem delete_calls_iff_confirmed:
  "snd (handleDelete s ident confirmed reply) =
     (if confirmed then [HttpDelete (''/resources/'' @ ident)] else [])"
  by (cases reply) (simp_all add: handleDelete_def deleteResource_def)

theorem delete_calls_iff_confirmed_witness:
  "snd (handleDelete (loaded [row [] EBS]) [] False (Rejected None)) = []
   \<and> snd (handleDelete (loaded [row [] EBS]) [] True (Rejected None))
       = [HttpDelete ''/resources/'']
   \<and> snd (handleDelete (loaded [row ''v-1'' EBS]) ''v-1'' True (Fulfilled ()))
       = [HttpDelete ''/resources/v-1'']"
  using delete_calls_iff_confirmed [of "loaded [row [] EBS]" "[]" False "Rejected None"]
    delete_calls_iff_confirmed [of "loaded [row [] EBS]" "[]" True "Rejected None"]
    delete_calls_iff_confirmed [of "loaded [row ''v-1'' EBS]" "''v-1''" True "Fulfilled ()"]
  by simp

text \<open>
  C6 as stated has the delete of an empty id rejected before any request: on a row whose
  id is empty, a confirmed delete sends a DELETE request for \<^verbatim>\<open>/resources/\<close>.
\<close>

theorem delete_with_empty_id_calls_the_aggregator:
  "snd (handleDelete (loaded [row [] EC2]) [] True (Fulfilled ())) = [HttpDelete ''/resources/'']"
  by (simp add: handleDelete_def deleteResource_def)

text \<open>
  C10. After a confirmed delete of an id that the aggregator acknowledged, the list is
  the old one without every row of that id, of whatever type: the id occurs on no row
  any more, and the rows of the other ids are the old ones in their old order.
\<close>

theorem delete_removes_every_row_with_the_id:
  "handleDelete s ident True (Fulfilled u) =
     (s\<lparr>resources := filter (\<lambda>r. id' r \<noteq> ident) (resources s)\<rparr>,
      [HttpDelete (''/resources/'' @ ident)])
   \<and> ident \<notin> id' ` set (resources (fst (handleDelete s ident True (Fulfilled u))))
   \<and> filter (\<lambda>r. id' r \<noteq> ident) (resources (fst (handleDelete s ident True (Fulfilled u))))
       = filter (\<lambda>r. id' r \<noteq> ident) (resources s)"
  by (auto simp: handleDelete_def deleteResource_def)

theorem delete_removes_every_row_with_the_id_witness:
  "resources (fst (handleDelete (loaded [row ''x-1'' EC2, row ''y-2'' RDS, row ''x-1'' EBS,
       row ''z-3'' EBS]) ''x-1'' True (Fulfilled ())))
     = [row ''y-2'' RDS, row ''z-3'' EBS]"
  using delete_removes_every_row_with_the_id
      [of "loaded [row ''x-1'' EC2, row ''y-2'' RDS, row ''x-1'' EBS, row ''z-3'' EBS]"
        "''x-1''" "()"]
  by (simp add: loaded_def row_def)

end
